theory Spec2Isabelle
  imports Main "HOL-Library.Sublist" "HOL-Library.AList"
begin

section \<open>LiveEditorLocalDriver.js: the local driver of the live CSS editor\<close>

text \<open>
  The driver keeps module-wide variables (\<open>_model\<close>, \<open>_hasEditor\<close>, \<open>_syncInterval\<close>,
  \<open>_retryCount\<close>, \<open>_cache\<close>) and talks to the inspected page through
  \<open>Inspector.Runtime.evaluate\<close>, which answers through a callback. The embedding makes
  the variables a record, and every piece of JavaScript that runs to completion (a call
  of the public interface, a timer tick, the callback of one remote answer) a function
  from session to session. A remote call that has been issued and not yet answered is an
  entry of \<open>pending\<close>, holding the callbacks chained onto its promise.

  Names: the source's private names start with an underscore, which a HOL name cannot;
  \<open>_setup\<close> is \<open>p_setup\<close> here, and so on. The module variables keep their names
  without the underscore.

  jQuery's Deferred is the one of jQuery 1.8 to 2.x, the \<open>$\<close> that Brackets provides to
  its extensions: a callback added to a promise that is already rejected runs at once,
  \<open>fail\<close> ignores what its callback returns, and \<open>then\<close> does not catch an exception its
  callback throws (the exception leaves the callback that resolved the promise).
\<close>

subsection \<open>JavaScript values\<close>

text \<open>What \<open>JSON.parse\<close> returns. Numbers are the integers a double holds exactly:
  fractions, and the integers beyond \<open>2^53\<close> that \<open>JSON.parse\<close> rounds, are not
  represented. An object lists its own keys in insertion order, each key once;
  JavaScript lists integer-like keys first, which changes the order of an object's
  entries and not what a key holds. The key \<open>__proto__\<close> is left out: assigning it to
  \<open>_model\<close> sets the prototype instead of adding a key.\<close>

datatype json =
    JNull
  | JBool bool
  | JNum int
  | JStr string
  | JArr "json list"
  | JObj "(string \<times> json) list"

text \<open>\<open>!x\<close> is \<open>\<not> truthy x\<close>.\<close>

fun truthy :: "json \<Rightarrow> bool" where
  "truthy JNull = False"
| "truthy (JBool b) = b"
| "truthy (JNum n) = (n \<noteq> 0)"
| "truthy (JStr s) = (s \<noteq> [])"
| "truthy (JArr xs) = True"
| "truthy (JObj kvs) = True"

text \<open>lodash's \<open>_.isEqual\<close> on JSON values: deep equality, blind to the order of an
  object's keys. lodash takes an object with an own key \<open>__wrapped__\<close> for one of its
  wrappers and compares what it wraps; such objects are left out.\<close>

fun isEqual :: "json \<Rightarrow> json \<Rightarrow> bool" where
  "isEqual JNull JNull = True"
| "isEqual (JBool a) (JBool b) = (a = b)"
| "isEqual (JNum a) (JNum b) = (a = b)"
| "isEqual (JStr a) (JStr b) = (a = b)"
| "isEqual (JArr xs) (JArr ys) = list_all2 isEqual xs ys"
| "isEqual (JObj xs) (JObj ys) =
     (length xs = length ys \<and>
      list_all (\<lambda>(k, v). case map_of ys k of None \<Rightarrow> False | Some w \<Rightarrow> isEqual v w) xs)"
| "isEqual _ _ = False"

definition digit_char :: "nat \<Rightarrow> char" where
  "digit_char d = ''0123456789'' ! d"

function string_of_nat :: "nat \<Rightarrow> string" where
  "string_of_nat n =
     (if n < 10 then [digit_char n]
      else string_of_nat (n div 10) @ [digit_char (n mod 10)])"
  by pat_completeness auto
termination
  by (relation "measure id") auto

text \<open>The pairs \<open>(key, data[key])\<close> that \<open>for (var key in data)\<close> visits: the keys of an
  object, the indices of an array or of a string, nothing for the other values.\<close>

fun for_in :: "json \<Rightarrow> (string \<times> json) list" where
  "for_in (JObj kvs) = kvs"
| "for_in (JArr xs) = zip (map string_of_nat [0..<length xs]) xs"
| "for_in (JStr s) = zip (map string_of_nat [0..<length s]) (map (\<lambda>c. JStr [c]) s)"
| "for_in JNull = []"
| "for_in (JBool b) = []"
| "for_in (JNum n) = []"

subsection \<open>The data of the driver\<close>

text \<open>An instance of \<open>Model\<close>, which the driver only reads, through \<open>model.get\<close>: it is
  taken by the three attributes it has when the driver is called, each a string. The
  object literal \<open>attr\<close> of \<open>_setup\<close> and \<open>_update\<close> has the same three entries.\<close>

record Model =
  selector :: string
  val :: string
  property :: string

text \<open>The \<open>result\<close> of an answer of \<open>Inspector.Runtime.evaluate\<close>.\<close>

datatype RemoteObject = RemoteObject (ro_value: "json option") (ro_description: "string option")

text \<open>The answer \<open>resp\<close> handed to the callback of \<open>Inspector.Runtime.evaluate\<close>.\<close>

datatype response = Response (wasThrown: bool) (result: "RemoteObject option")

text \<open>The expression given to \<open>_call\<close>. \<open>Eval_setup a\<close> is the text
  \<open>_namespace + '.setup(' + JSON.stringify(attr) + ')'\<close>, and so on; \<open>Eval_scripts\<close>
  carries the text \<open>scripts.join(';')\<close> itself.\<close>

datatype expr =
    Eval_setup Model
  | Eval_update Model
  | Eval_remove
  | Eval_getModel
  | Eval_scripts string

text \<open>The callbacks chained onto the promise of a remote call, named by the place that
  chains them.\<close>

datatype cont =
    K_setup                \<comment> \<open>\<open>_setup\<close>: then \<open>_startSyncLoop\<close>, then \<open>_hasEditor = true\<close>, fail \<open>_whenRemoteCallFailed\<close>\<close>
  | K_update               \<comment> \<open>\<open>_update\<close>: fail \<open>_whenRemoteCallFailed\<close>\<close>
  | K_switch Model         \<comment> \<open>\<open>_update\<close>: \<open>_remove().then(function(){ return _setup(model); })\<close>\<close>
  | K_getModel             \<comment> \<open>\<open>_onSyncTick\<close>: then \<open>_whenGetRemoteModel\<close>, fail \<open>_whenRemoteCallFailed\<close>\<close>
  | K_onPostInit           \<comment> \<open>\<open>_reconnect\<close>: then \<open>onPostInit\<close>\<close>
  | K_none                 \<comment> \<open>nothing chained by the driver\<close>

datatype notification = Init_event | ModelChange "(string \<times> json) list"

datatype exn = TypeError | SyntaxError

datatype promise = Pending | Rejected

text \<open>What a function of the public interface returns: a promise, or nothing.\<close>

datatype ret = Undefined | Promise promise

record session =
  model :: "(string \<times> json) list"          \<comment> \<open>\<open>_model\<close>\<close>
  hasEditor :: bool                            \<comment> \<open>\<open>_hasEditor\<close>\<close>
  syncInterval :: "nat option"                 \<comment> \<open>\<open>_syncInterval\<close>\<close>
  retryCount :: int                            \<comment> \<open>\<open>_retryCount\<close>\<close>
  cache_model :: "Model option"                \<comment> \<open>\<open>_cache.model\<close>\<close>
  cache_dependencies :: "string list option"   \<comment> \<open>\<open>_cache.dependencies\<close>\<close>
  timers :: "nat list"                         \<comment> \<open>the intervals of \<open>window\<close> that are running\<close>
  nextTimer :: nat                             \<comment> \<open>the next handle \<open>setInterval\<close> returns\<close>
  connected :: bool                            \<comment> \<open>\<open>Inspector.connected()\<close>\<close>
  pending :: "(expr \<times> cont) list"           \<comment> \<open>remote calls awaiting their answer\<close>
  issued :: "expr list"                        \<comment> \<open>every expression sent to the page, in order\<close>
  notifications :: "notification list"         \<comment> \<open>every \<open>triggerHandler\<close>, in order\<close>

text \<open>The module as loaded.\<close>

definition initial :: "bool \<Rightarrow> session" where
  "initial c =
     \<lparr> model = [], hasEditor = False, syncInterval = None, retryCount = 5,
       cache_model = None, cache_dependencies = None,
       timers = [], nextTimer = 0, connected = c,
       pending = [], issued = [], notifications = [] \<rparr>"

text \<open>What the driver takes from outside its file: the text of
  \<open>LiveEditorRemoteDriver.js\<close>, \<open>JSON.parse\<close> (\<open>None\<close> where it throws a SyntaxError),
  and the outcome of \<open>==\<close> between a string and a value that is neither a string nor
  \<open>null\<close> nor \<open>undefined\<close> (ECMAScript converts both sides first).\<close>

record env =
  LiveEditorRemoteDriver :: string
  JSON_parse :: "string \<Rightarrow> json option"
  coerced_eq :: "string \<Rightarrow> json \<Rightarrow> bool"

subsection \<open>The evaluation gateway\<close>

fun join_scripts :: "string list \<Rightarrow> string" where
  "join_scripts [] = []"
| "join_scripts [x] = x"
| "join_scripts (x # y # zs) = x @ '';'' @ join_scripts (y # zs)"

text \<open>\<open>!expression\<close>: the empty text. Only the text of \<open>_init\<close> can be empty; the others
  start with \<open>_namespace\<close>.\<close>

fun empty_text :: "expr \<Rightarrow> bool" where
  "empty_text (Eval_scripts x) = (x = [])"
| "empty_text (Eval_setup a) = False"
| "empty_text (Eval_update a) = False"
| "empty_text Eval_remove = False"
| "empty_text Eval_getModel = False"

text \<open>\<open>_call\<close>. It throws on an empty expression, returns a rejected promise when the
  inspector is not connected, and otherwise sends the expression; \<open>k\<close> are the callbacks
  the caller chains onto the promise it gets back.\<close>

definition p_call :: "expr \<Rightarrow> cont \<Rightarrow> session \<Rightarrow> (exn + promise) \<times> session" where
  "p_call expression k s =
     (if empty_text expression then (Inl TypeError, s)
      else if connected s = False then (Inr Rejected, s)
      else (Inr Pending,
            s\<lparr> pending := pending s @ [(expression, k)],
               issued := issued s @ [expression] \<rparr>))"

subsection \<open>The sync loop's timer, and reset\<close>

definition p_startSyncLoop :: "session \<Rightarrow> session" where
  "p_startSyncLoop s =
     s\<lparr> syncInterval := Some (nextTimer s),
        timers := timers s @ [nextTimer s],
        nextTimer := Suc (nextTimer s) \<rparr>"

definition p_stopSyncLoop :: "session \<Rightarrow> session" where
  "p_stopSyncLoop s =
     (case syncInterval s of
        None \<Rightarrow> s
      | Some h \<Rightarrow> s\<lparr> timers := removeAll h (timers s) \<rparr>)"

definition p_reset :: "session \<Rightarrow> session" where
  "p_reset s = (p_stopSyncLoop s)\<lparr> hasEditor := False, model := [] \<rparr>"

subsection \<open>Remove, injection, reconnect and the failure handler\<close>

text \<open>\<open>_remove\<close>. The bare \<open>return\<close> of its first branch returns \<open>undefined\<close>.\<close>

definition p_remove :: "cont \<Rightarrow> session \<Rightarrow> (exn + ret) \<times> session" where
  "p_remove k s =
     (if hasEditor s = False then (Inr Undefined, s)
      else (case p_call Eval_remove k (p_reset s) of
              (Inl e, s') \<Rightarrow> (Inl e, s')
            | (Inr p, s') \<Rightarrow> (Inr (Promise p), s')))"

text \<open>\<open>_init\<close>. \<open>[].concat(LiveEditorRemoteDriver, providers || [])\<close> puts the driver's text
  before the providers.\<close>

definition p_init :: "env \<Rightarrow> string list option \<Rightarrow> cont \<Rightarrow> session \<Rightarrow> (exn + ret) \<times> session" where
  "p_init e providers k s =
     (let scripts = LiveEditorRemoteDriver e # (case providers of None \<Rightarrow> [] | Some ps \<Rightarrow> ps);
          s1 = s\<lparr> cache_dependencies := Some scripts,
                  notifications := notifications s @ [Init_event] \<rparr>
      in case p_call (Eval_scripts (join_scripts scripts)) k s1 of
           (Inl x, s') \<Rightarrow> (Inl x, s')
         | (Inr p, s') \<Rightarrow> (Inr (Promise p), s'))"

text \<open>\<open>_reconnect\<close>. \<open>onPostInit\<close> is chained onto the promise of \<open>_init\<close> and runs when the
  injection is answered without a throw.\<close>

definition p_reconnect :: "env \<Rightarrow> session \<Rightarrow> (exn + ret) \<times> session" where
  "p_reconnect e s =
     (if retryCount s = 0 then (Inr (Promise Rejected), s)
      else p_init e (cache_dependencies s) K_onPostInit (s\<lparr> retryCount := retryCount s - 1 \<rparr>))"

text \<open>\<open>result && result.description && /Cannot call method/.test(result.description)\<close>\<close>

definition lostContext :: "RemoteObject option \<Rightarrow> bool" where
  "lostContext r =
     (case r of
        None \<Rightarrow> False
      | Some ro \<Rightarrow>
          (case ro_description ro of
             None \<Rightarrow> False
           | Some d \<Rightarrow> d \<noteq> [] \<and> sublist ''Cannot call method'' d))"

text \<open>\<open>_whenRemoteCallFailed\<close>\<close>

definition p_whenRemoteCallFailed :: "env \<Rightarrow> RemoteObject option \<Rightarrow> session \<Rightarrow> (exn + ret) \<times> session" where
  "p_whenRemoteCallFailed e r s =
     (if lostContext r then p_reconnect e s
      else p_remove K_none (s\<lparr> cache_model := None \<rparr>))"

subsection \<open>Setup and update\<close>

text \<open>\<open>attr.selector == _model.selector\<close>: a string against an entry of the snapshot
  (\<open>None\<close> is \<open>undefined\<close>).\<close>

definition loose_eq :: "env \<Rightarrow> string \<Rightarrow> json option \<Rightarrow> bool" where
  "loose_eq e a v =
     (case v of
        None \<Rightarrow> False
      | Some JNull \<Rightarrow> False
      | Some (JStr b) \<Rightarrow> a = b
      | Some w \<Rightarrow> coerced_eq e a w)"

text \<open>\<open>attr.selector !== _model.selector\<close>\<close>

definition strict_neq :: "string \<Rightarrow> json option \<Rightarrow> bool" where
  "strict_neq a v = (v \<noteq> Some (JStr a))"

text \<open>\<open>_setup\<close> and \<open>_update\<close> call each other; a call with no model (\<open>undefined\<close>) throws
  at \<open>model.get\<close> in \<open>_setup\<close>, after the assignment to the cache, and at the first test
  of \<open>_update\<close>.\<close>

function p_setup :: "env \<Rightarrow> Model option \<Rightarrow> session \<Rightarrow> (exn + ret) \<times> session"
  and p_update :: "env \<Rightarrow> Model option \<Rightarrow> session \<Rightarrow> (exn + ret) \<times> session"
where
  "p_setup e m s =
     (let s1 = s\<lparr> cache_model := (case cache_model s of None \<Rightarrow> m | Some c \<Rightarrow> Some c) \<rparr>
      in case m of
           None \<Rightarrow> (Inl TypeError, s1)
         | Some attr \<Rightarrow>
             if hasEditor s1
                \<and> loose_eq e (selector attr) (map_of (model s1) ''selector'')
                \<and> loose_eq e (property attr) (map_of (model s1) ''property'')
             then p_update e m s1
             else (case p_call (Eval_setup attr) K_setup s1 of
                     (Inl x, s2) \<Rightarrow> (Inl x, s2)
                   | (Inr Pending, s2) \<Rightarrow> (Inr (Promise Pending), s2)
                   | (Inr Rejected, s2) \<Rightarrow>
                       (case p_whenRemoteCallFailed e None s2 of
                          (Inl x, s3) \<Rightarrow> (Inl x, s3)
                        | (Inr r, s3) \<Rightarrow> (Inr (Promise Rejected), s3))))"
| "p_update e m s =
     (case m of
        None \<Rightarrow> (Inl TypeError, s)
      | Some attr \<Rightarrow>
          if hasEditor s = False then p_setup e m s
          else
            (let s1 = s\<lparr> cache_model := m \<rparr>
             in if strict_neq (selector attr) (map_of (model s1) ''selector'')
                   \<or> strict_neq (property attr) (map_of (model s1) ''property'')
                then (case p_remove (K_switch attr) s1 of
                        (Inl x, s2) \<Rightarrow> (Inl x, s2)
                      | (Inr Undefined, s2) \<Rightarrow> (Inl TypeError, s2)
                      | (Inr (Promise p), s2) \<Rightarrow> (Inr (Promise p), s2))
                else (case p_call (Eval_update attr) K_update s1 of
                        (Inl x, s2) \<Rightarrow> (Inl x, s2)
                      | (Inr Pending, s2) \<Rightarrow> (Inr (Promise Pending), s2)
                      | (Inr Rejected, s2) \<Rightarrow>
                          (case p_whenRemoteCallFailed e None s2 of
                             (Inl x, s3) \<Rightarrow> (Inl x, s3)
                           | (Inr r, s3) \<Rightarrow> (Inr (Promise Rejected), s3)))))"
  by pat_completeness auto
termination
  by (relation "measure (\<lambda>x. case x of
          Inl (e, m, s) \<Rightarrow> (if hasEditor s then 1 else 0)
        | Inr (e, m, s) \<Rightarrow> (if hasEditor s then 0 else 1))") auto

subsection \<open>The sync loop\<close>

text \<open>The test \<open>!_model[key] || !_.isEqual(_model[key], data[key])\<close>, for \<open>_model[key]\<close>
  (\<open>None\<close> when the key is missing: \<open>undefined\<close>, which is falsy) and \<open>data[key]\<close>.
  The loop of \<open>_whenGetRemoteModel\<close> over the keys of \<open>data\<close> carries \<open>_model\<close> and
  \<open>hasChanged\<close>; assigning to a key keeps its place in the object, a new key goes
  last. (JavaScript lists a new integer-like key before the others: the order of the
  snapshot's entries is the embedding's, what each key holds is the code's.)\<close>

definition changed_entry :: "json option \<Rightarrow> json \<Rightarrow> bool" where
  "changed_entry v d =
     (case v of
        None \<Rightarrow> True
      | Some old \<Rightarrow> (if truthy old then \<not> isEqual old d else True))"

fun sync_keys ::
  "(string \<times> json) list \<Rightarrow> (string \<times> json) list \<Rightarrow> bool \<Rightarrow> (string \<times> json) list \<times> bool"
where
  "sync_keys [] m hasChanged = (m, hasChanged)"
| "sync_keys ((key, d) # rest) m hasChanged =
     (if changed_entry (map_of m key) d
      then sync_keys rest (AList.update key d m) True
      else sync_keys rest m hasChanged)"

text \<open>\<open>_whenGetRemoteModel\<close>: the callback of a poll that was answered without a throw.\<close>

definition p_whenGetRemoteModel :: "env \<Rightarrow> RemoteObject option \<Rightarrow> session \<Rightarrow> (exn + ret) \<times> session" where
  "p_whenGetRemoteModel e r s =
     (case r of
        None \<Rightarrow> (Inl TypeError, s)
      | Some ro \<Rightarrow>
          (case ro_value ro of
             Some (JStr txt) \<Rightarrow>
               if txt = [] then (Inl TypeError, s)
               else (case JSON_parse e txt of
                       None \<Rightarrow> (Inl SyntaxError, s)
                     | Some data \<Rightarrow>
                         (case sync_keys (for_in data) (model s) False of
                            (m, hasChanged) \<Rightarrow>
                              (Inr Undefined,
                               if hasChanged
                               then s\<lparr> model := m,
                                       notifications := notifications s @ [ModelChange m] \<rparr>
                               else s\<lparr> model := m \<rparr>)))
           | Some other \<Rightarrow> (Inl TypeError, s)
           | None \<Rightarrow> (Inl TypeError, s)))"

text \<open>\<open>_onSyncTick\<close>\<close>

definition p_onSyncTick :: "env \<Rightarrow> session \<Rightarrow> (exn + ret) \<times> session" where
  "p_onSyncTick e s =
     (case p_call Eval_getModel K_getModel s of
        (Inl x, s1) \<Rightarrow> (Inl x, s1)
      | (Inr Pending, s1) \<Rightarrow> (Inr Undefined, s1)
      | (Inr Rejected, s1) \<Rightarrow>
          (case p_whenRemoteCallFailed e None s1 of
             (Inl x, s2) \<Rightarrow> (Inl x, s2)
           | (Inr r, s2) \<Rightarrow> (Inr Undefined, s2)))"

subsection \<open>The callbacks of a remote answer\<close>

text \<open>\<open>onPostInit\<close> of \<open>_reconnect\<close>: when \<open>_setup\<close> throws, the assignment to
  \<open>_retryCount\<close> is not reached.\<close>

definition onPostInit :: "env \<Rightarrow> session \<Rightarrow> (exn + ret) \<times> session" where
  "onPostInit e s =
     (case p_setup e (cache_model (p_reset s)) (p_reset s) of
        (Inl x, s2) \<Rightarrow> (Inl x, s2)
      | (Inr r, s2) \<Rightarrow> (Inr Undefined, s2\<lparr> retryCount := 5 \<rparr>))"

text \<open>The callbacks that run when the promise of \<open>_call\<close> is resolved with \<open>v\<close>.\<close>

fun resolved :: "env \<Rightarrow> cont \<Rightarrow> RemoteObject option \<Rightarrow> session \<Rightarrow> (exn + ret) \<times> session" where
  "resolved e K_setup v s = (Inr Undefined, (p_startSyncLoop s)\<lparr> hasEditor := True \<rparr>)"
| "resolved e K_update v s = (Inr Undefined, s)"
| "resolved e (K_switch attr) v s = p_setup e (Some attr) s"
| "resolved e K_getModel v s = p_whenGetRemoteModel e v s"
| "resolved e K_onPostInit v s = onPostInit e s"
| "resolved e K_none v s = (Inr Undefined, s)"

text \<open>The callbacks that run when the promise of \<open>_call\<close> is rejected with \<open>diag\<close>.\<close>

fun rejected :: "env \<Rightarrow> cont \<Rightarrow> RemoteObject option \<Rightarrow> session \<Rightarrow> (exn + ret) \<times> session" where
  "rejected e K_setup diag s = p_whenRemoteCallFailed e diag s"
| "rejected e K_update diag s = p_whenRemoteCallFailed e diag s"
| "rejected e K_getModel diag s = p_whenRemoteCallFailed e diag s"
| "rejected e (K_switch attr) diag s = (Inr Undefined, s)"
| "rejected e K_onPostInit diag s = (Inr Undefined, s)"
| "rejected e K_none diag s = (Inr Undefined, s)"

text \<open>The callback \<open>_call\<close> gives to \<open>Inspector.Runtime.evaluate\<close>. With no \<open>resp\<close> at all,
  \<open>resp.result\<close> throws.\<close>

definition answer :: "env \<Rightarrow> cont \<Rightarrow> response option \<Rightarrow> session \<Rightarrow> (exn + ret) \<times> session" where
  "answer e k resp s =
     (case resp of
        None \<Rightarrow> (Inl TypeError, s)
      | Some r \<Rightarrow> if wasThrown r then rejected e k (result r) s else resolved e k (result r) s)"

subsection \<open>Runs of the driver\<close>

text \<open>What can happen to a session: a call of the exported \<open>init\<close>, \<open>setup\<close>, \<open>update\<close>
  or \<open>remove\<close>, a tick of a running interval, the answer to a pending remote call, and
  the inspector connecting or disconnecting.\<close>

datatype event =
    Call_init "string list option"
  | Call_setup "Model option"
  | Call_update "Model option"
  | Call_remove
  | Tick nat
  | Answer nat "response option"
  | Connection bool

fun step :: "env \<Rightarrow> event \<Rightarrow> session \<Rightarrow> (exn + ret) \<times> session" where
  "step e (Call_init providers) s = p_init e providers K_none s"
| "step e (Call_setup m) s = p_setup e m s"
| "step e (Call_update m) s = p_update e m s"
| "step e Call_remove s = p_remove K_none s"
| "step e (Tick h) s = (if h \<in> set (timers s) then p_onSyncTick e s else (Inr Undefined, s))"
| "step e (Answer i resp) s =
     (if i < length (pending s)
      then answer e (snd (pending s ! i)) resp
             (s\<lparr> pending := take i (pending s) @ drop (Suc i) (pending s) \<rparr>)
      else (Inr Undefined, s))"
| "step e (Connection c) s = (Inr Undefined, s\<lparr> connected := c \<rparr>)"

text \<open>An exception that leaves a callback ends that callback only; the session goes on
  from the state the callback left.\<close>

fun run :: "env \<Rightarrow> event list \<Rightarrow> session \<Rightarrow> session" where
  "run e [] s = s"
| "run e (ev # evs) s = run e evs (snd (step e ev s))"

subsection \<open>Example sessions\<close>

text \<open>A \<open>JSON.parse\<close> that knows the texts of the examples and throws on every other.\<close>

definition example_parse :: "string \<Rightarrow> json option" where
  \<open>example_parse txt =
     map_of
       [(''{"selector":"div","property":"shape-inside","value":"circle()"}'',
           JObj [(''selector'', JStr ''div''), (''property'', JStr ''shape-inside''),
                 (''value'', JStr ''circle()'')]),
        (''{"b":3,"c":4}'', JObj [(''b'', JNum 3), (''c'', JNum 4)]),
        (''{"a":1,"b":3,"c":4}'', JObj [(''a'', JNum 1), (''b'', JNum 3), (''c'', JNum 4)]),
        (''{"a":0}'', JObj [(''a'', JNum 0)]),
        (''{"value":""}'', JObj [(''value'', JStr [])])]
       txt\<close>

definition example_env :: env where
  "example_env =
     \<lparr> LiveEditorRemoteDriver = ''window._LD_CSS_EDITOR = {}'',
       JSON_parse = example_parse,
       coerced_eq = (\<lambda>a w. False) \<rparr>"

definition div_circle :: Model where
  "div_circle = \<lparr> selector = ''div'', val = ''circle()'', property = ''shape-inside'' \<rparr>"


definition p_circle :: Model where
  "p_circle = \<lparr> selector = ''p'', val = ''circle()'', property = ''shape-inside'' \<rparr>"

text \<open>Answers of the page: a plain success, the polled model of the \<open>div\<close>, a throw
  that is not about the namespace, and the throw of a page that has lost the namespace.\<close>

definition answer_ok :: "response option" where
  "answer_ok = Some (Response False (Some (RemoteObject None None)))"

definition answer_div_model :: "response option" where
  \<open>answer_div_model =
     Some (Response False (Some (RemoteObject
       (Some (JStr ''{"selector":"div","property":"shape-inside","value":"circle()"}''))
       None)))\<close>

definition answer_empty_value :: "response option" where
  \<open>answer_empty_value =
     Some (Response False (Some (RemoteObject (Some (JStr ''{"value":""}'')) None)))\<close>

definition diag_fault :: "RemoteObject option" where
  "diag_fault = Some (RemoteObject None (Some ''ReferenceError: x is not defined''))"

definition diag_lost :: "RemoteObject option" where
  "diag_lost =
     Some (RemoteObject None (Some ''TypeError: Cannot call method 'setup' of undefined''))"

definition answer_fault :: "response option" where
  "answer_fault = Some (Response True diag_fault)"

definition answer_lost :: "response option" where
  "answer_lost = Some (Response True diag_lost)"

text \<open>The session after \<open>setup(div_circle)\<close> was answered and one poll brought the
  remote model.\<close>

definition active_session :: session where
  "active_session =
     run example_env
       [Call_setup (Some div_circle), Answer 0 answer_ok, Tick 0, Answer 0 answer_div_model]
       (initial True)"


text \<open>A setup, a remove, and a setup of another target.\<close>

definition stale_cache_events :: "event list" where
  "stale_cache_events =
     [Call_setup (Some div_circle), Answer 0 answer_ok, Call_remove, Answer 0 answer_ok,
      Call_setup (Some p_circle)]"

text \<open>Two setups sent before either is answered; the page throws on the first and has
  lost the namespace at the second.\<close>

definition lost_target_events :: "event list" where
  "lost_target_events =
     [Call_setup (Some div_circle), Call_setup (Some div_circle),
      Answer 0 answer_fault, Answer 0 answer_lost]"



text \<open>Every call is answered before the next thing happens. A second setup before the
  first poll starts a second interval and leaves the first running; a poll of the
  second is answered with a throw, which clears the cached target and stops the second
  interval only; a poll of the first finds the namespace lost.\<close>

definition leaked_interval_events :: "event list" where
  "leaked_interval_events =
     [Call_setup (Some div_circle), Answer 0 answer_ok,
      Call_setup (Some div_circle), Answer 0 answer_ok,
      Tick 1, Answer 0 answer_fault, Answer 0 answer_ok,
      Tick 0, Answer 0 answer_lost]"

section \<open>Properties\<close>

declare p_setup.simps [simp del] p_update.simps [simp del]

subsection \<open>The gateway and the failure handler with no diagnostic\<close>

lemma lostContext_None: "lostContext None = False"
  by (simp add: lostContext_def)

lemma failed_None:
  "p_whenRemoteCallFailed e None s = p_remove K_none (s\<lparr> cache_model := None \<rparr>)"
  by (simp add: p_whenRemoteCallFailed_def lostContext_None)

lemma p_reset_frame [simp]:
  "pending (p_reset s) = pending s" "issued (p_reset s) = issued s"
  "connected (p_reset s) = connected s" "retryCount (p_reset s) = retryCount s"
  "cache_model (p_reset s) = cache_model s" "cache_dependencies (p_reset s) = cache_dependencies s"
  "notifications (p_reset s) = notifications s"
  "hasEditor (p_reset s) = False" "model (p_reset s) = []"
  by (simp_all add: p_reset_def p_stopSyncLoop_def split: option.splits)

lemma snd_pass [simp]:
  "snd (case p of (Inl x, s') \<Rightarrow> (Inl x, s') | (Inr r, s') \<Rightarrow> (Inr (g r), s')) = snd p"
  by (cases p) (simp split: sum.splits)

lemma p_remove_idle: "hasEditor s = False \<Longrightarrow> p_remove k s = (Inr Undefined, s)"
  by (simp add: p_remove_def)

lemma p_remove_active:
  "hasEditor s \<Longrightarrow>
   p_remove k s =
     (if connected s
      then (Inr (Promise Pending),
            (p_reset s)\<lparr> pending := pending s @ [(Eval_remove, k)],
                         issued := issued s @ [Eval_remove] \<rparr>)
      else (Inr (Promise Rejected), p_reset s))"
  by (simp add: p_remove_def p_call_def)

lemma p_call_retry [simp]: "retryCount (snd (p_call x k s)) = retryCount s"
  by (simp add: p_call_def)

lemma p_remove_retry [simp]: "retryCount (snd (p_remove k s)) = retryCount s"
  by (cases "hasEditor s") (simp_all add: p_remove_idle p_remove_active)

lemma p_init_retry [simp]: "retryCount (snd (p_init e ps k s)) = retryCount s"
  by (simp add: p_init_def p_call_def Let_def)

lemma p_init_notifications [simp]:
  "notifications (snd (p_init e ps k s)) = notifications s @ [Init_event]"
  by (simp add: p_init_def p_call_def Let_def)

lemma p_update_editor_retry:
  "hasEditor s \<Longrightarrow> retryCount (snd (p_update e (Some a) s)) = retryCount s"
  apply (subst p_update.simps)
  apply (simp add: Let_def failed_None p_remove_active p_remove_idle p_call_def)
  done

lemma p_setup_retry [simp]: "retryCount (snd (p_setup e m s)) = retryCount s"
  apply (subst p_setup.simps)
  apply (cases m)
   apply (simp add: Let_def)
  apply (simp add: Let_def failed_None p_call_def p_update_editor_retry)
  done

lemma p_update_retry [simp]: "retryCount (snd (p_update e m s)) = retryCount s"
  apply (cases m)
   apply (simp add: p_update.simps)
  apply (cases "hasEditor s")
   apply (simp add: p_update_editor_retry)
  apply (simp add: p_update.simps)
  done

lemma p_reconnect_zero: "retryCount s = 0 \<Longrightarrow> p_reconnect e s = (Inr (Promise Rejected), s)"
  by (simp add: p_reconnect_def)

lemma p_reconnect_retry:
  "retryCount s \<noteq> 0 \<Longrightarrow> retryCount (snd (p_reconnect e s)) = retryCount s - 1"
  by (simp add: p_reconnect_def)

lemma failed_retry:
  "retryCount (snd (p_whenRemoteCallFailed e r s)) =
     (if lostContext r \<and> retryCount s \<noteq> 0 then retryCount s - 1 else retryCount s)"
  by (simp add: p_whenRemoteCallFailed_def p_reconnect_def)

lemma whenGetRemoteModel_retry [simp]:
  "retryCount (snd (p_whenGetRemoteModel e r s)) = retryCount s"
  by (simp add: p_whenGetRemoteModel_def split: option.splits json.splits prod.splits)

lemma onSyncTick_retry [simp]: "retryCount (snd (p_onSyncTick e s)) = retryCount s"
  by (simp add: p_onSyncTick_def p_call_def failed_None)

lemma onPostInit_retry:
  "retryCount (snd (onPostInit e s)) = retryCount s \<or> retryCount (snd (onPostInit e s)) = 5"
proof (cases "p_setup e (cache_model (p_reset s)) (p_reset s)")
  case (Pair a b)
  have "retryCount (snd (p_setup e (cache_model (p_reset s)) (p_reset s))) = retryCount s"
    by (simp only: p_setup_retry p_reset_frame)
  then have "retryCount b = retryCount s"
    unfolding Pair by (simp only: snd_conv)
  then show ?thesis using Pair by (cases a) (simp_all add: onPostInit_def)
qed

lemma step_retry:
  "retryCount (snd (step e ev s)) = retryCount s
   \<or> (retryCount (snd (step e ev s)) = retryCount s - 1 \<and> retryCount s \<noteq> 0
       \<and> (\<exists>i ro. ev = Answer i (Some (Response True ro)) \<and> lostContext ro \<and> i < length (pending s)))
   \<or> (retryCount (snd (step e ev s)) = 5
       \<and> (\<exists>i v. ev = Answer i (Some (Response False v)) \<and> i < length (pending s)
               \<and> snd (pending s ! i) = K_onPostInit))"
proof (cases ev)
  case (Answer i resp)
  show ?thesis
  proof (cases "i < length (pending s)")
    case False
    then show ?thesis using Answer by simp
  next
    case True
    let ?s1 = "s\<lparr> pending := take i (pending s) @ drop (Suc i) (pending s) \<rparr>"
    show ?thesis
    proof (cases resp)
      case None
      then show ?thesis using Answer True by (simp add: answer_def)
    next
      case (Some r)
      obtain t v where r: "r = Response t v" by (cases r)
      show ?thesis
      proof (cases t)
        case True
        note thrown = this
        have "retryCount (snd (rejected e (snd (pending s ! i)) v ?s1)) = retryCount s
           \<or> (retryCount (snd (rejected e (snd (pending s ! i)) v ?s1)) = retryCount s - 1
               \<and> retryCount s \<noteq> 0 \<and> lostContext v)"
          by (cases "snd (pending s ! i)") (auto simp add: failed_retry)
        then show ?thesis using Answer \<open>i < length (pending s)\<close> Some r thrown
          by (auto simp add: answer_def)
      next
        case False
        have "retryCount (snd (resolved e (snd (pending s ! i)) v ?s1)) = retryCount s
           \<or> (retryCount (snd (resolved e (snd (pending s ! i)) v ?s1)) = 5
               \<and> snd (pending s ! i) = K_onPostInit)"
          using onPostInit_retry [of e ?s1]
          by (cases "snd (pending s ! i)") (auto simp add: p_startSyncLoop_def)
        then show ?thesis using Answer \<open>i < length (pending s)\<close> Some r False
          by (auto simp add: answer_def)
      qed
    qed
  qed
qed simp_all


lemma active_session_eq:
  "active_session =
     \<lparr> model = [(''selector'', JStr ''div''), (''property'', JStr ''shape-inside''),
                (''value'', JStr ''circle()'')],
       hasEditor = True, syncInterval = Some 0, retryCount = 5,
       cache_model = Some div_circle, cache_dependencies = None,
       timers = [0], nextTimer = 1, connected = True,
       pending = [], issued = [Eval_setup div_circle, Eval_getModel],
       notifications =
         [ModelChange [(''selector'', JStr ''div''), (''property'', JStr ''shape-inside''),
                       (''value'', JStr ''circle()'')]] \<rparr>"
  by (simp add: active_session_def initial_def example_env_def example_parse_def
      answer_ok_def answer_div_model_def div_circle_def
      p_setup.simps p_call_def p_startSyncLoop_def p_onSyncTick_def answer_def
      p_whenGetRemoteModel_def changed_entry_def)

lemma p_reset_eq:
  "p_reset s =
     s\<lparr> timers := (case syncInterval s of None \<Rightarrow> timers s | Some h \<Rightarrow> removeAll h (timers s)),
        hasEditor := False, model := [] \<rparr>"
  by (simp add: p_reset_def p_stopSyncLoop_def split: option.splits)

lemma p_setup_idle:
  "hasEditor s = False \<Longrightarrow>
   p_setup e (Some a) s =
     (if connected s
      then (Inr (Promise Pending),
            s\<lparr> cache_model := (case cache_model s of None \<Rightarrow> Some a | Some c \<Rightarrow> Some c),
               pending := pending s @ [(Eval_setup a, K_setup)],
               issued := issued s @ [Eval_setup a] \<rparr>)
      else (Inr (Promise Rejected), s\<lparr> cache_model := None \<rparr>))"
  apply (subst p_setup.simps)
  apply (simp add: Let_def p_call_def failed_None p_remove_idle)
  done



subsection \<open>Setup of the target the snapshot reports\<close>








subsection \<open>The failure handler\<close>

lemma diag_lost_lostContext: "lostContext diag_lost"
  unfolding diag_lost_def by code_simp

lemma diag_fault_not_lostContext: "\<not> lostContext diag_fault"
  unfolding diag_fault_def by code_simp

lemma lostContext_iff:
  "lostContext r \<longleftrightarrow>
     (\<exists>ro d. r = Some ro \<and> ro_description ro = Some d \<and> sublist ''Cannot call method'' d)"
  by (auto simp add: lostContext_def split: option.splits)

lemma failed_fault_explicit:
  assumes "\<not> lostContext r"
  shows "p_whenRemoteCallFailed e r s =
     (if hasEditor s
      then (if connected s
            then (Inr (Promise Pending),
                  s\<lparr> timers := (case syncInterval s of None \<Rightarrow> timers s
                                  | Some h \<Rightarrow> removeAll h (timers s)),
                     hasEditor := False, model := [], cache_model := None,
                     pending := pending s @ [(Eval_remove, K_none)],
                     issued := issued s @ [Eval_remove] \<rparr>)
            else (Inr (Promise Rejected),
                  s\<lparr> timers := (case syncInterval s of None \<Rightarrow> timers s
                                  | Some h \<Rightarrow> removeAll h (timers s)),
                     hasEditor := False, model := [], cache_model := None \<rparr>))
      else (Inr Undefined, s\<lparr> cache_model := None \<rparr>))"
  using assms
  by (cases s)
    (auto simp add: p_whenRemoteCallFailed_def p_remove_def p_call_def p_reset_eq
      split: option.splits)

lemma failed_lost_explicit:
  assumes "lostContext r"
  shows "p_whenRemoteCallFailed e r s =
     (let scripts = LiveEditorRemoteDriver e
                      # (case cache_dependencies s of None \<Rightarrow> [] | Some ps \<Rightarrow> ps)
      in if retryCount s = 0 then (Inr (Promise Rejected), s)
         else if join_scripts scripts = []
         then (Inl TypeError,
               s\<lparr> retryCount := retryCount s - 1, cache_dependencies := Some scripts,
                  notifications := notifications s @ [Init_event] \<rparr>)
         else if connected s
         then (Inr (Promise Pending),
               s\<lparr> retryCount := retryCount s - 1, cache_dependencies := Some scripts,
                  notifications := notifications s @ [Init_event],
                  pending := pending s @ [(Eval_scripts (join_scripts scripts), K_onPostInit)],
                  issued := issued s @ [Eval_scripts (join_scripts scripts)] \<rparr>)
         else (Inr (Promise Rejected),
               s\<lparr> retryCount := retryCount s - 1, cache_dependencies := Some scripts,
                  notifications := notifications s @ [Init_event] \<rparr>))"
  using assms
  by (cases s)
    (auto simp add: p_whenRemoteCallFailed_def p_reconnect_def p_init_def p_call_def Let_def
      split: option.splits)

text \<open>
  C5. A failure is a lost context exactly when it carries a diagnostic whose description
  contains \<open>Cannot call method\<close>. The handler then attempts a reconnect: with no budget
  left it returns a rejected promise and changes nothing; with budget left it takes one
  off, caches the scripts (the driver's text before the cached dependencies), announces
  \<open>init\<close>, and sends the scripts to the page with \<open>onPostInit\<close> chained, when the
  inspector is connected. The cached target, the editor flag, the snapshot and the
  intervals stay, and no remove is sent. Every other failure, the one with no diagnostic
  included, is a remote fault: the cached target is cleared and \<open>_remove\<close> is called,
  which, when an editor is set up, stops the interval of \<open>_syncInterval\<close>, clears the
  snapshot and the editor flag and sends a remove call if the inspector is connected, and
  otherwise does nothing more. The budget, the cached scripts and the notifications stay:
  nothing is retried.
\<close>

theorem failure_classification:
  "(lostContext r \<longleftrightarrow>
      (\<exists>ro d. r = Some ro \<and> ro_description ro = Some d \<and> sublist ''Cannot call method'' d))
   \<and> (lostContext r \<longrightarrow>
        p_whenRemoteCallFailed e r s =
          (let scripts = LiveEditorRemoteDriver e
                           # (case cache_dependencies s of None \<Rightarrow> [] | Some ps \<Rightarrow> ps)
           in if retryCount s = 0 then (Inr (Promise Rejected), s)
              else if join_scripts scripts = []
              then (Inl TypeError,
                    s\<lparr> retryCount := retryCount s - 1, cache_dependencies := Some scripts,
                       notifications := notifications s @ [Init_event] \<rparr>)
              else if connected s
              then (Inr (Promise Pending),
                    s\<lparr> retryCount := retryCount s - 1, cache_dependencies := Some scripts,
                       notifications := notifications s @ [Init_event],
                       pending := pending s
                                    @ [(Eval_scripts (join_scripts scripts), K_onPostInit)],
                       issued := issued s @ [Eval_scripts (join_scripts scripts)] \<rparr>)
              else (Inr (Promise Rejected),
                    s\<lparr> retryCount := retryCount s - 1, cache_dependencies := Some scripts,
                       notifications := notifications s @ [Init_event] \<rparr>)))
   \<and> (\<not> lostContext r \<longrightarrow>
        p_whenRemoteCallFailed e r s =
          (if hasEditor s
           then (if connected s
                 then (Inr (Promise Pending),
                       s\<lparr> timers := (case syncInterval s of None \<Rightarrow> timers s
                                       | Some h \<Rightarrow> removeAll h (timers s)),
                          hasEditor := False, model := [], cache_model := None,
                          pending := pending s @ [(Eval_remove, K_none)],
                          issued := issued s @ [Eval_remove] \<rparr>)
                 else (Inr (Promise Rejected),
                       s\<lparr> timers := (case syncInterval s of None \<Rightarrow> timers s
                                       | Some h \<Rightarrow> removeAll h (timers s)),
                          hasEditor := False, model := [], cache_model := None \<rparr>))
           else (Inr Undefined, s\<lparr> cache_model := None \<rparr>)))"
  using lostContext_iff [of r] failed_lost_explicit [of r e s] failed_fault_explicit [of r e s]
  by blast

theorem failure_classification_witness:
  "lostContext diag_lost
   \<and> p_whenRemoteCallFailed example_env diag_lost active_session
       = (Inr (Promise Pending),
          active_session\<lparr> retryCount := 4,
             cache_dependencies := Some [LiveEditorRemoteDriver example_env],
             notifications := notifications active_session @ [Init_event],
             pending := [(Eval_scripts (LiveEditorRemoteDriver example_env), K_onPostInit)],
             issued := [Eval_setup div_circle, Eval_getModel,
                        Eval_scripts (LiveEditorRemoteDriver example_env)] \<rparr>)
   \<and> \<not> lostContext diag_fault
   \<and> p_whenRemoteCallFailed example_env diag_fault active_session
       = (Inr (Promise Pending),
          active_session\<lparr> timers := [], hasEditor := False, model := [], cache_model := None,
             pending := [(Eval_remove, K_none)],
             issued := [Eval_setup div_circle, Eval_getModel, Eval_remove] \<rparr>)"
proof -
  note l = failure_classification [of diag_lost example_env active_session, THEN conjunct2, THEN conjunct1,
      THEN mp, OF diag_lost_lostContext]
  note f = failure_classification [of diag_fault example_env active_session, THEN conjunct2, THEN conjunct2,
      THEN mp, OF diag_fault_not_lostContext]
  have 1: "p_whenRemoteCallFailed example_env diag_lost active_session
       = (Inr (Promise Pending),
          active_session\<lparr> retryCount := 4,
             cache_dependencies := Some [LiveEditorRemoteDriver example_env],
             notifications := notifications active_session @ [Init_event],
             pending := [(Eval_scripts (LiveEditorRemoteDriver example_env), K_onPostInit)],
             issued := [Eval_setup div_circle, Eval_getModel,
                        Eval_scripts (LiveEditorRemoteDriver example_env)] \<rparr>)"
    unfolding l by (simp add: active_session_eq example_env_def Let_def)
  have 2: "p_whenRemoteCallFailed example_env diag_fault active_session
       = (Inr (Promise Pending),
          active_session\<lparr> timers := [], hasEditor := False, model := [], cache_model := None,
             pending := [(Eval_remove, K_none)],
             issued := [Eval_setup div_circle, Eval_getModel, Eval_remove] \<rparr>)"
    unfolding f by (simp add: active_session_eq)
  from 1 2 diag_lost_lostContext diag_fault_not_lostContext show ?thesis by blast
qed

subsection \<open>The retry budget\<close>

lemma failed_lost_funpow:
  "lostContext r \<Longrightarrow> 0 \<le> retryCount s \<Longrightarrow>
   retryCount (((\<lambda>s. snd (p_whenRemoteCallFailed e r s)) ^^ n) s) = max 0 (retryCount s - int n)
   \<and> notifications (((\<lambda>s. snd (p_whenRemoteCallFailed e r s)) ^^ n) s)
       = notifications s @ replicate (nat (min (int n) (retryCount s))) Init_event"
proof (induction n)
  case 0
  then show ?case by simp
next
  case (Suc n)
  let ?s = "((\<lambda>s. snd (p_whenRemoteCallFailed e r s)) ^^ n) s"
  have ih: "retryCount ?s = max 0 (retryCount s - int n)"
    "notifications ?s = notifications s @ replicate (nat (min (int n) (retryCount s))) Init_event"
    using Suc by simp_all
  show ?case
  proof (cases "retryCount ?s = 0")
    case True
    then have "snd (p_whenRemoteCallFailed e r ?s) = ?s"
      using Suc.prems by (simp add: p_whenRemoteCallFailed_def p_reconnect_zero)
    moreover have "retryCount s \<le> int n" using True ih(1) by simp
    ultimately show ?thesis using ih True by (simp add: min_def)
  next
    case False
    then have lt: "int n < retryCount s" using ih(1) by (simp add: max_def split: if_splits)
    have "retryCount (snd (p_whenRemoteCallFailed e r ?s)) = retryCount ?s - 1"
      using False Suc.prems by (simp add: failed_retry)
    moreover have "notifications (snd (p_whenRemoteCallFailed e r ?s)) = notifications ?s @ [Init_event]"
      using False Suc.prems by (simp add: p_whenRemoteCallFailed_def p_reconnect_def)
    moreover have "nat (min (int (Suc n)) (retryCount s)) = Suc (nat (min (int n) (retryCount s)))"
      using lt by (simp add: min_def)
    ultimately show ?thesis using ih lt
      by (simp add: replicate_append_same)
  qed
qed

lemma onPostInit_resets:
  assumes "cache_model s \<noteq> None"
  shows "retryCount (snd (onPostInit e s)) = 5"
proof -
  obtain a where a: "cache_model s = Some a" using assms by auto
  have "fst (p_setup e (Some a) (p_reset s)) \<noteq> Inl TypeError \<and> (\<exists>r. fst (p_setup e (Some a) (p_reset s)) = Inr r)"
    by (simp add: p_setup_idle)
  then obtain r where "fst (p_setup e (Some a) (p_reset s)) = Inr r" by blast
  then show ?thesis
    by (cases "p_setup e (Some a) (p_reset s)") (simp add: onPostInit_def a)
qed

text \<open>
  The budget \<open>_retryCount\<close> over all that can happen to a session. It is 5 when the
  module is loaded. A reconnect with budget left takes one off and announces one
  injection; a reconnect with no budget left returns a rejected promise and changes
  nothing. So from a budget of 5, five lost-context failures in a row bring it to 0 with
  five injections announced, and the handler of the sixth leaves the session as it is.
  The budget changes in two ways only: down by one, in the answer that rejects a remote
  call with a lost-context diagnostic, and to 5, in the answer that resolves the
  injection of a reconnect. And when a target is cached, \<open>onPostInit\<close>, and so the answer
  that resolves the injection of a reconnect, does put the budget back to 5.
\<close>

theorem retry_budget:
  "retryCount (initial c) = 5
   \<and> (retryCount s \<noteq> 0 \<longrightarrow>
        retryCount (snd (p_reconnect e s)) = retryCount s - 1
        \<and> notifications (snd (p_reconnect e s)) = notifications s @ [Init_event])
   \<and> (retryCount s = 0 \<longrightarrow> p_reconnect e s = (Inr (Promise Rejected), s))
   \<and> (lostContext r \<and> retryCount s = 5 \<longrightarrow>
        retryCount (((\<lambda>s. snd (p_whenRemoteCallFailed e r s)) ^^ 5) s) = 0
        \<and> notifications (((\<lambda>s. snd (p_whenRemoteCallFailed e r s)) ^^ 5) s)
            = notifications s @ replicate 5 Init_event
        \<and> p_whenRemoteCallFailed e r (((\<lambda>s. snd (p_whenRemoteCallFailed e r s)) ^^ 5) s)
            = (Inr (Promise Rejected), ((\<lambda>s. snd (p_whenRemoteCallFailed e r s)) ^^ 5) s))
   \<and> (retryCount (snd (step e ev s)) = retryCount s
       \<or> (retryCount (snd (step e ev s)) = retryCount s - 1 \<and> retryCount s \<noteq> 0
           \<and> (\<exists>i ro. ev = Answer i (Some (Response True ro)) \<and> lostContext ro
                    \<and> i < length (pending s)))
       \<or> (retryCount (snd (step e ev s)) = 5
           \<and> (\<exists>i v. ev = Answer i (Some (Response False v)) \<and> i < length (pending s)
                   \<and> snd (pending s ! i) = K_onPostInit)))
   \<and> (cache_model s \<noteq> None \<longrightarrow> retryCount (snd (onPostInit e s)) = 5)
   \<and> (j < length (pending s) \<and> snd (pending s ! j) = K_onPostInit \<and> cache_model s \<noteq> None \<longrightarrow>
        retryCount (snd (step e (Answer j (Some (Response False w))) s)) = 5)"
proof (intro conjI impI)
  show "retryCount (initial c) = 5" by (simp add: initial_def)
next
  assume "retryCount s \<noteq> 0"
  then show "retryCount (snd (p_reconnect e s)) = retryCount s - 1"
    by (rule p_reconnect_retry)
next
  assume "retryCount s \<noteq> 0"
  then show "notifications (snd (p_reconnect e s)) = notifications s @ [Init_event]"
    by (simp add: p_reconnect_def)
next
  assume "retryCount s = 0"
  then show "p_reconnect e s = (Inr (Promise Rejected), s)" by (rule p_reconnect_zero)
next
  assume a: "lostContext r \<and> retryCount s = 5"
  let ?s5 = "((\<lambda>s. snd (p_whenRemoteCallFailed e r s)) ^^ 5) s"
  have f: "retryCount ?s5 = 0" "notifications ?s5 = notifications s @ replicate 5 Init_event"
    using failed_lost_funpow [where r = r and s = s and e = e and n = 5] a by simp_all
  show "retryCount ?s5 = 0" by (rule f(1))
  show "notifications ?s5 = notifications s @ replicate 5 Init_event" by (rule f(2))
  show "p_whenRemoteCallFailed e r ?s5 = (Inr (Promise Rejected), ?s5)"
    using a f(1) by (simp only: p_whenRemoteCallFailed_def p_reconnect_zero if_True)
next
  show "retryCount (snd (step e ev s)) = retryCount s
       \<or> (retryCount (snd (step e ev s)) = retryCount s - 1 \<and> retryCount s \<noteq> 0
           \<and> (\<exists>i ro. ev = Answer i (Some (Response True ro)) \<and> lostContext ro
                    \<and> i < length (pending s)))
       \<or> (retryCount (snd (step e ev s)) = 5
           \<and> (\<exists>i v. ev = Answer i (Some (Response False v)) \<and> i < length (pending s)
                   \<and> snd (pending s ! i) = K_onPostInit))"
    by (rule step_retry)
next
  assume "cache_model s \<noteq> None"
  then show "retryCount (snd (onPostInit e s)) = 5" by (rule onPostInit_resets)
next
  assume a: "j < length (pending s) \<and> snd (pending s ! j) = K_onPostInit \<and> cache_model s \<noteq> None"
  then have "cache_model (s\<lparr> pending := take j (pending s) @ drop (Suc j) (pending s) \<rparr>) \<noteq> None"
    by simp
  from onPostInit_resets [OF this, of e] a
  show "retryCount (snd (step e (Answer j (Some (Response False w))) s)) = 5"
    by (simp add: answer_def)
qed



theorem retry_budget_witness:
  "retryCount (initial True) = 5
   \<and> lostContext diag_lost
   \<and> retryCount (snd (p_reconnect example_env (initial True))) = 4
   \<and> retryCount (((\<lambda>s. snd (p_whenRemoteCallFailed example_env diag_lost s)) ^^ 5)
        (initial True)) = 0
   \<and> p_whenRemoteCallFailed example_env diag_lost
        (((\<lambda>s. snd (p_whenRemoteCallFailed example_env diag_lost s)) ^^ 5) (initial True))
       = (Inr (Promise Rejected),
          ((\<lambda>s. snd (p_whenRemoteCallFailed example_env diag_lost s)) ^^ 5) (initial True))
   \<and> cache_model active_session \<noteq> None
   \<and> retryCount (snd (onPostInit example_env active_session)) = 5"
proof -
  have h: "retryCount (initial True) = 5" "retryCount (initial True) \<noteq> 0"
    by (simp_all add: initial_def)
  have c: "cache_model active_session \<noteq> None"
    by (simp add: active_session_eq)
  have 1: "retryCount (initial True) = 5
   \<and> lostContext diag_lost
   \<and> retryCount (snd (p_reconnect example_env (initial True))) = 4
   \<and> retryCount (((\<lambda>s. snd (p_whenRemoteCallFailed example_env diag_lost s)) ^^ 5)
        (initial True)) = 0
   \<and> p_whenRemoteCallFailed example_env diag_lost
        (((\<lambda>s. snd (p_whenRemoteCallFailed example_env diag_lost s)) ^^ 5) (initial True))
       = (Inr (Promise Rejected),
          ((\<lambda>s. snd (p_whenRemoteCallFailed example_env diag_lost s)) ^^ 5) (initial True))"
    using retry_budget [of True "initial True" example_env diag_lost "Tick 0"]
      diag_lost_lostContext h
    by simp
  have 2: "retryCount (snd (onPostInit example_env active_session)) = 5"
    using retry_budget [of True active_session example_env diag_lost "Tick 0"] c
    by blast
  from 1 2 c show ?thesis by blast
qed

text \<open>
  C4, at a failing input. Every call is answered before the next thing happens. The
  budget is at 4 after one lost-context failure, its injection is pending and no target
  is cached. The page answers the injection without a throw: the reconnect has succeeded,
  \<open>onPostInit\<close> throws at \<open>_setup(undefined)\<close> before it reaches \<open>_retryCount = 5\<close>, and
  the budget stays at 4.
\<close>

theorem budget_not_reset_by_successful_injection:
  "retryCount (run example_env leaked_interval_events (initial True)) = 4
   \<and> cache_model (run example_env leaked_interval_events (initial True)) = None
   \<and> map snd (pending (run example_env leaked_interval_events (initial True))) = [K_onPostInit]
   \<and> fst (step example_env (Answer 0 answer_ok)
        (run example_env leaked_interval_events (initial True))) = Inl TypeError
   \<and> retryCount (run example_env (leaked_interval_events @ [Answer 0 answer_ok]) (initial True)) = 4"
  by (simp add: leaked_interval_events_def initial_def answer_ok_def answer_lost_def answer_fault_def
      p_setup.simps p_call_def answer_def p_remove_def p_reset_def p_startSyncLoop_def
      p_onSyncTick_def loose_eq_def
      p_stopSyncLoop_def p_whenRemoteCallFailed_def diag_lost_lostContext diag_fault_not_lostContext
      p_reconnect_def p_init_def onPostInit_def example_env_def Let_def)

subsection \<open>Update to a target the snapshot does not report\<close>





subsection \<open>The sync tick\<close>

lemma sync_keys_lookup:
  "distinct (map fst data) \<Longrightarrow>
   map_of (fst (sync_keys data m c)) k =
     (case map_of data k of
        None \<Rightarrow> map_of m k
      | Some d \<Rightarrow> if changed_entry (map_of m k) d then Some d else map_of m k)"
proof (induction data arbitrary: m c)
  case Nil
  then show ?case by simp
next
  case (Cons p rest)
  obtain key d where p: "p = (key, d)" by (cases p)
  have nk: "map_of rest key = None"
    using Cons.prems p by (simp add: map_of_eq_None_iff)
  have d: "distinct (map fst rest)" using Cons.prems by simp
  show ?case
  proof (cases "changed_entry (map_of m key) d")
    case True
    then have "sync_keys (p # rest) m c = sync_keys rest (AList.update key d m) True"
      by (simp add: p changed_entry_def)
    then show ?thesis
      using Cons.IH [OF d, of "AList.update key d m" True] True nk
      by (auto simp add: p update_conv' split: option.splits)
  next
    case False
    then have "sync_keys (p # rest) m c = sync_keys rest m c"
      by (simp add: p changed_entry_def)
    then show ?thesis
      using Cons.IH [OF d, of m c] False nk
      by (auto simp add: p split: option.splits)
  qed
qed

lemma sync_keys_flag:
  "distinct (map fst data) \<Longrightarrow>
   snd (sync_keys data m c) = (c \<or> list_ex (\<lambda>(k, d). changed_entry (map_of m k) d) data)"
proof (induction data arbitrary: m c)
  case Nil
  then show ?case by simp
next
  case (Cons p rest)
  obtain key d where p: "p = (key, d)" by (cases p)
  have nk: "key \<notin> fst ` set rest" using Cons.prems p by simp
  have d: "distinct (map fst rest)" using Cons.prems by simp
  show ?case
  proof (cases "changed_entry (map_of m key) d")
    case True
    then have "sync_keys (p # rest) m c = sync_keys rest (AList.update key d m) True"
      by (simp add: p changed_entry_def)
    then show ?thesis
      using Cons.IH [OF d, of "AList.update key d m" True] True
      by (simp add: p)
  next
    case False
    then have "sync_keys (p # rest) m c = sync_keys rest m c"
      by (simp add: p changed_entry_def)
    then show ?thesis
      using Cons.IH [OF d, of m c] False
      by (simp add: p)
  qed
qed

lemma sync_keys_noop:
  "list_all (\<lambda>(k, d). \<not> changed_entry (map_of m k) d) data \<Longrightarrow> sync_keys data m c = (m, c)"
proof (induction data arbitrary: c)
  case Nil
  then show ?case by simp
next
  case (Cons p rest)
  obtain key d where p: "p = (key, d)" by (cases p)
  have "\<not> changed_entry (map_of m key) d" using Cons.prems by (simp add: p)
  then have "sync_keys (p # rest) m c = sync_keys rest m c"
    by (simp add: p changed_entry_def)
  moreover have "sync_keys rest m c = (m, c)"
    using Cons.IH Cons.prems by simp
  ultimately show ?case by simp
qed

text \<open>
  The merge of a poll into the snapshot, for the keys of an object (each once). An entry
  of the snapshot whose key is not polled stays; a polled key that is new, or whose old
  value is falsy or not deeply equal to the polled one, gets the polled value; a polled
  key whose old value is truthy and deeply equal keeps the old value. \<open>hasChanged\<close> ends
  true exactly when it was true or the test held for some polled key.
\<close>

theorem sync_merge:
  assumes "distinct (map fst data)"
  shows "map_of (fst (sync_keys data m c)) k =
           (case map_of data k of
              None \<Rightarrow> map_of m k
            | Some d \<Rightarrow> if changed_entry (map_of m k) d then Some d else map_of m k)
       \<and> snd (sync_keys data m c)
           = (c \<or> list_ex (\<lambda>(k, d). changed_entry (map_of m k) d) data)"
  using assms by (simp add: sync_keys_lookup sync_keys_flag)

theorem sync_merge_witness:
  "distinct (map fst [(''b'', JNum 3), (''c'', JNum 4)])
   \<and> sync_keys [(''b'', JNum 3), (''c'', JNum 4)] [(''a'', JNum 1), (''b'', JNum 2)] False
       = ([(''a'', JNum 1), (''b'', JNum 3), (''c'', JNum 4)], True)
   \<and> map_of (fst (sync_keys [(''b'', JNum 3), (''c'', JNum 4)]
                  [(''a'', JNum 1), (''b'', JNum 2)] False)) ''a'' = Some (JNum 1)
   \<and> snd (sync_keys [(''b'', JNum 3), (''c'', JNum 4)] [(''a'', JNum 1), (''b'', JNum 2)] False)"
proof -
  have d: "distinct (map fst [(''b'', JNum 3), (''c'', JNum 4)])" by simp
  have e: "sync_keys [(''b'', JNum 3), (''c'', JNum 4)] [(''a'', JNum 1), (''b'', JNum 2)] False
             = ([(''a'', JNum 1), (''b'', JNum 3), (''c'', JNum 4)], True)"
    by (simp add: changed_entry_def)
  from sync_merge [OF d, of "[(''a'', JNum 1), (''b'', JNum 2)]" False "''a''"]
  have "map_of (fst (sync_keys [(''b'', JNum 3), (''c'', JNum 4)]
                  [(''a'', JNum 1), (''b'', JNum 2)] False)) ''a'' = Some (JNum 1)"
    and "snd (sync_keys [(''b'', JNum 3), (''c'', JNum 4)] [(''a'', JNum 1), (''b'', JNum 2)] False)"
    by (simp_all add: changed_entry_def)
  with d e show ?thesis by blast
qed

text \<open>
  A poll whose every entry is deeply equal to a truthy entry of the snapshot under the
  same key changes nothing and triggers no \<open>modelChange\<close>. For the example of the
  specification: polling \<open>a: 1, b: 3, c: 4\<close> into that same snapshot.
\<close>

theorem sync_equal_truthy_is_noop:
  assumes "list_all (\<lambda>(k, d). case map_of (model s) k of
                                  None \<Rightarrow> False
                                | Some old \<Rightarrow> truthy old \<and> isEqual old d) data"
    and "txt \<noteq> []"
    and "JSON_parse e txt = Some (JObj data)"
  shows "sync_keys data (model s) False = (model s, False)
       \<and> p_whenGetRemoteModel e (Some (RemoteObject (Some (JStr txt)) descr)) s
           = (Inr Undefined, s)"
proof -
  have "list_all (\<lambda>(k, d). \<not> changed_entry (map_of (model s) k) d) data"
    using assms(1)
    by (induction data) (auto simp add: changed_entry_def split: option.splits)
  then have n: "sync_keys data (model s) False = (model s, False)"
    by (rule sync_keys_noop)
  then show ?thesis using assms(2) assms(3)
    by (simp add: p_whenGetRemoteModel_def)
qed

theorem sync_equal_truthy_is_noop_witness:
  \<open>''{"a":1,"b":3,"c":4}'' \<noteq> []
   \<and> JSON_parse example_env ''{"a":1,"b":3,"c":4}''
       = Some (JObj [(''a'', JNum 1), (''b'', JNum 3), (''c'', JNum 4)])
   \<and> p_whenGetRemoteModel example_env
        (Some (RemoteObject (Some (JStr ''{"a":1,"b":3,"c":4}'')) None))
        (active_session\<lparr> model := [(''a'', JNum 1), (''b'', JNum 3), (''c'', JNum 4)] \<rparr>)
       = (Inr Undefined,
          active_session\<lparr> model := [(''a'', JNum 1), (''b'', JNum 3), (''c'', JNum 4)] \<rparr>)\<close>
proof -
  let ?s = "active_session\<lparr> model := [(''a'', JNum 1), (''b'', JNum 3), (''c'', JNum 4)] \<rparr>"
  have a: "list_all (\<lambda>(k, d). case map_of (model ?s) k of
                                  None \<Rightarrow> False
                                | Some old \<Rightarrow> truthy old \<and> isEqual old d)
             [(''a'', JNum 1), (''b'', JNum 3), (''c'', JNum 4)]"
    by simp
  have b: \<open>''{"a":1,"b":3,"c":4}'' \<noteq> []\<close> by simp
  have c: \<open>JSON_parse example_env ''{"a":1,"b":3,"c":4}''
             = Some (JObj [(''a'', JNum 1), (''b'', JNum 3), (''c'', JNum 4)])\<close>
    by (simp add: example_env_def example_parse_def)
  from sync_equal_truthy_is_noop [OF a b c, of None]
  have \<open>p_whenGetRemoteModel example_env
          (Some (RemoteObject (Some (JStr ''{"a":1,"b":3,"c":4}'')) None)) ?s
        = (Inr Undefined, ?s)\<close>
    by (rule conjunct2)
  with b c show ?thesis by blast
qed

text \<open>
  C3, at a failing input. The snapshot holds \<open>a: 0, b: 2\<close> and the poll brings \<open>a: 0\<close>:
  no key is added and none changes, the snapshot stays as it was, and \<open>modelChange\<close> is
  still triggered, because the test \<open>!_model[key]\<close> holds for the falsy entry \<open>0\<close>.
\<close>

theorem modelChange_without_change:
  \<open>p_whenGetRemoteModel example_env (Some (RemoteObject (Some (JStr ''{"a":0}'')) None))
     (s\<lparr> model := [(''a'', JNum 0), (''b'', JNum 2)] \<rparr>)
   = (Inr Undefined,
      s\<lparr> model := [(''a'', JNum 0), (''b'', JNum 2)],
         notifications := notifications s @ [ModelChange [(''a'', JNum 0), (''b'', JNum 2)]] \<rparr>)\<close>
  by (simp add: p_whenGetRemoteModel_def example_env_def example_parse_def changed_entry_def)

text \<open>
  C6, at a failing input. The snapshot holds \<open>value: ""\<close> and the poll brings the same
  entry, deeply equal to it; \<open>modelChange\<close> is triggered all the same. So two polls in
  a row that bring \<open>value: ""\<close> trigger it twice.
\<close>

theorem repoll_of_empty_value_notifies:
  \<open>isEqual (JStr []) (JStr [])
   \<and> p_whenGetRemoteModel example_env (Some (RemoteObject (Some (JStr ''{"value":""}'')) None))
       (s\<lparr> model := [(''value'', JStr [])] \<rparr>)
     = (Inr Undefined,
        s\<lparr> model := [(''value'', JStr [])],
           notifications := notifications s @ [ModelChange [(''value'', JStr [])]] \<rparr>)
   \<and> notifications
       (run example_env
          [Call_setup (Some div_circle), Answer 0 answer_ok,
           Tick 0, Answer 0 answer_empty_value, Tick 0, Answer 0 answer_empty_value]
          (initial True))
     = [ModelChange [(''value'', JStr [])], ModelChange [(''value'', JStr [])]]\<close>
  by (simp add: p_whenGetRemoteModel_def example_env_def example_parse_def changed_entry_def
      initial_def answer_ok_def answer_empty_value_def p_setup.simps p_call_def answer_def
      p_startSyncLoop_def p_onSyncTick_def)




subsection \<open>Remove with no editor\<close>

text \<open>
  C8, at a failing input. \<open>remove()\<close> on the module as loaded sends nothing and leaves
  the session as it is, and what it returns is \<open>undefined\<close>, not a promise.
\<close>

theorem remove_without_editor_returns_undefined: "step e Call_remove (initial c) = (Inr Undefined, initial c)"
  by (simp add: p_remove_def initial_def)

text \<open>With no editor set up, \<open>remove()\<close> sends nothing, chains nothing and leaves the
  whole session as it is.\<close>

theorem remove_without_editor_is_noop:
  assumes "hasEditor s = False"
  shows "snd (p_remove k s) = s \<and> fst (p_remove k s) = Inr Undefined
       \<and> issued (snd (p_remove k s)) = issued s \<and> pending (snd (p_remove k s)) = pending s"
  using assms by (simp add: p_remove_def)

theorem remove_without_editor_is_noop_witness:
  "hasEditor (initial True) = False
   \<and> snd (p_remove K_none (initial True)) = initial True
   \<and> issued (snd (p_remove K_none (initial True))) = []"
proof -
  have h: "hasEditor (initial True) = False" by (simp add: initial_def)
  from remove_without_editor_is_noop [OF h, of K_none]
  have "snd (p_remove K_none (initial True)) = initial True"
    and "issued (snd (p_remove K_none (initial True))) = issued (initial True)"
    by blast+
  moreover have "issued (initial True) = []" by (simp add: initial_def)
  ultimately show ?thesis using h by simp
qed

subsection \<open>The cached target\<close>

text \<open>
  C7, at a failing input. After \<open>setup(div)\<close>, \<open>remove()\<close> and \<open>setup(p)\<close>, the setup
  of \<open>p\<close> has been sent and the cached target is still \<open>div\<close>; when the page answers
  that setup with a lost context and the injection succeeds, the restore step sends a
  setup of \<open>div\<close>.
\<close>

theorem setup_keeps_older_cached_target:
  "cache_model (run example_env stale_cache_events (initial True)) = Some div_circle
   \<and> issued (run example_env stale_cache_events (initial True))
       = [Eval_setup div_circle, Eval_remove, Eval_setup p_circle]
   \<and> drop 3 (issued (run example_env (stale_cache_events @ [Answer 0 answer_lost, Answer 0 answer_ok])
         (initial True)))
       = [Eval_scripts (LiveEditorRemoteDriver example_env), Eval_setup div_circle]"
  by (simp add: stale_cache_events_def initial_def answer_ok_def answer_lost_def
      p_setup.simps p_call_def answer_def p_startSyncLoop_def p_remove_def p_reset_def
      p_stopSyncLoop_def p_whenRemoteCallFailed_def diag_lost_lostContext p_reconnect_def
      p_init_def onPostInit_def example_env_def Let_def)

text \<open>
  C10, at a failing input. Two setups are sent before the page answers. The page throws
  on the first, which clears the cached target, and has lost the namespace at the second,
  which starts a reconnect. The injection is pending with no cached target; when it
  succeeds, \<open>onPostInit\<close> calls \<open>_setup(undefined)\<close>, which throws at \<open>model.get\<close>, and
  the budget is not put back to 5.
\<close>

theorem restore_reads_cleared_target:
  "cache_model (run example_env lost_target_events (initial True)) = None
   \<and> map snd (pending (run example_env lost_target_events (initial True))) = [K_onPostInit]
   \<and> fst (step example_env (Answer 0 answer_ok)
        (run example_env lost_target_events (initial True))) = Inl TypeError
   \<and> retryCount (snd (step example_env (Answer 0 answer_ok)
        (run example_env lost_target_events (initial True)))) = 4"
  by (simp add: lost_target_events_def initial_def answer_ok_def answer_lost_def answer_fault_def
      p_setup.simps p_call_def answer_def p_remove_def p_reset_def
      p_stopSyncLoop_def p_whenRemoteCallFailed_def diag_lost_lostContext diag_fault_not_lostContext
      p_reconnect_def p_init_def onPostInit_def example_env_def Let_def)

end
